theory Spec2Isabelle
  imports Main "HOL-Library.Product_Lexorder"
begin

section \<open>Types and schemas (src/types/index.ts)\<close>

text \<open>
  The three closed enumerations of the source. The constructors carry a capital
  letter (and a prefix for the checklist and standard names) so that they do not
  collide with variables; the string each one stands for is given by the
  \<open>*_str\<close> functions below.
\<close>

datatype Mode = Learning | Guided | Expert

datatype ChecklistType = CPre | CPost | COwasp | CApi | CFull | CNone

datatype StandardType = STypescript | SApi

text \<open>
  A JavaScript run-time value, as the schemas see it. Numbers are never accepted
  by any schema of this program, so their representation does not matter. An
  object is an association list; a property read returns \<open>JUndefined\<close> for a
  key that is absent.
\<close>

datatype jsval =
    JUndefined
  | JNull
  | JBool bool
  | JNum int
  | JStr string
  | JArr "jsval list"
  | JObj "(string \<times> jsval) list"

definition getProp :: "(string \<times> jsval) list \<Rightarrow> string \<Rightarrow> jsval" where
  "getProp kvs k = (case map_of kvs k of None \<Rightarrow> JUndefined | Some v \<Rightarrow> v)"

fun Mode_str :: "Mode \<Rightarrow> string" where
  "Mode_str Learning = ''learning''"
| "Mode_str Guided = ''guided''"
| "Mode_str Expert = ''expert''"

fun ChecklistType_str :: "ChecklistType \<Rightarrow> string" where
  "ChecklistType_str CPre = ''pre''"
| "ChecklistType_str CPost = ''post''"
| "ChecklistType_str COwasp = ''owasp''"
| "ChecklistType_str CApi = ''api''"
| "ChecklistType_str CFull = ''full''"
| "ChecklistType_str CNone = ''none''"

fun StandardType_str :: "StandardType \<Rightarrow> string" where
  "StandardType_str STypescript = ''typescript''"
| "StandardType_str SApi = ''api''"

text \<open>\<open>z.enum([...]).safeParse\<close>: exactly the listed strings, nothing else.\<close>

fun ModeSchema_safeParse :: "jsval \<Rightarrow> Mode option" where
  "ModeSchema_safeParse (JStr s) =
     (if s = ''learning'' then Some Learning
      else if s = ''guided'' then Some Guided
      else if s = ''expert'' then Some Expert
      else None)"
| "ModeSchema_safeParse _ = None"

fun ChecklistTypeSchema_safeParse :: "jsval \<Rightarrow> ChecklistType option" where
  "ChecklistTypeSchema_safeParse (JStr s) =
     (if s = ''pre'' then Some CPre
      else if s = ''post'' then Some CPost
      else if s = ''owasp'' then Some COwasp
      else if s = ''api'' then Some CApi
      else if s = ''full'' then Some CFull
      else if s = ''none'' then Some CNone
      else None)"
| "ChecklistTypeSchema_safeParse _ = None"

fun StandardTypeSchema_safeParse :: "jsval \<Rightarrow> StandardType option" where
  "StandardTypeSchema_safeParse (JStr s) =
     (if s = ''typescript'' then Some STypescript
      else if s = ''api'' then Some SApi
      else None)"
| "StandardTypeSchema_safeParse _ = None"

text \<open>\<open>z.string()\<close>, \<open>z.array(elem)\<close>, \<open>.optional()\<close> and \<open>.default(d)\<close>.\<close>

fun z_string :: "jsval \<Rightarrow> string option" where
  "z_string (JStr s) = Some s"
| "z_string _ = None"

fun z_array :: "(jsval \<Rightarrow> 'a option) \<Rightarrow> jsval \<Rightarrow> 'a list option" where
  "z_array elem (JArr vs) = those (map elem vs)"
| "z_array elem _ = None"

fun z_optional :: "(jsval \<Rightarrow> 'a option) \<Rightarrow> jsval \<Rightarrow> 'a option option" where
  "z_optional inner JUndefined = Some None"
| "z_optional inner v = map_option Some (inner v)"

fun z_default :: "'a \<Rightarrow> (jsval \<Rightarrow> 'a option) \<Rightarrow> jsval \<Rightarrow> 'a option" where
  "z_default d inner JUndefined = Some d"
| "z_default d inner v = inner v"

record GlobalConfig =
  defaultMode :: Mode
  editor :: "string option"
  claudeCodePath :: "string option"
  includeSecurityChecklist :: "ChecklistType option"
  includeStandards :: "StandardType list option"

record ProjectConfig =
  mode :: "Mode option"
  projectName :: "string option"
  template :: "string option"
  customPrompts :: "string list option"
  includeSecurityChecklist :: "ChecklistType option"
  includeStandards :: "StandardType list option"

record MergedConfig =
  mode :: Mode
  editor :: "string option"
  claudeCodePath :: "string option"
  projectName :: "string option"
  template :: "string option"
  customPrompts :: "string list"
  includeSecurityChecklist :: ChecklistType
  includeStandards :: "StandardType list"

text \<open>
  The errors of the program are JavaScript \<open>Error\<close> objects that differ in
  their message only; the model keeps one constructor for each origin.
  \<open>NotInitialized\<close> is \<open>Error("Project not initialized. Run 'vibe init' first.")\<close>,
  \<open>FileNotFound p\<close> is \<open>Error("File not found: p")\<close>, \<open>SyntaxError\<close> is what
  \<open>JSON.parse\<close> throws, \<open>ZodError\<close> what \<open>schema.parse\<close> throws, and
  \<open>IOError\<close> what the \<open>fs\<close> calls throw, \<open>InvalidMode v\<close> the error of
  \<open>parseMode\<close> on the string \<open>v\<close>.
\<close>

datatype error =
  NotInitialized | FileNotFound string | SyntaxError | ZodError | IOError | InvalidMode string

text \<open>
  \<open>Result<T>\<close> of the source, and the two ways an \<open>async\<close> function
  completes: its promise resolves with a value, or rejects with a thrown error.
\<close>

datatype 'a Result = Success 'a | Failure error

datatype 'a completion = Returns 'a | Throws error


text \<open>
  \<open>GlobalConfigSchema.parse\<close> and \<open>ProjectConfigSchema.parse\<close>: the value must
  be an object, every declared key is validated, unknown keys are stripped, and a
  violation throws a \<open>ZodError\<close> (\<open>Inl\<close>). Zod reports every violated key in the
  one error it throws; the model keeps the fact of the violation only.
\<close>

definition GlobalConfigSchema_parse :: "jsval \<Rightarrow> error + GlobalConfig" where
  "GlobalConfigSchema_parse v =
     (case v of
        JObj kvs \<Rightarrow>
          (case z_default Guided ModeSchema_safeParse (getProp kvs ''defaultMode'') of
             None \<Rightarrow> Inl ZodError
           | Some m \<Rightarrow>
          (case z_optional z_string (getProp kvs ''editor'') of
             None \<Rightarrow> Inl ZodError
           | Some e \<Rightarrow>
          (case z_optional z_string (getProp kvs ''claudeCodePath'') of
             None \<Rightarrow> Inl ZodError
           | Some c \<Rightarrow>
          (case z_default CPre ChecklistTypeSchema_safeParse
                  (getProp kvs ''includeSecurityChecklist'') of
             None \<Rightarrow> Inl ZodError
           | Some cl \<Rightarrow>
          (case z_default [STypescript] (z_array StandardTypeSchema_safeParse)
                  (getProp kvs ''includeStandards'') of
             None \<Rightarrow> Inl ZodError
           | Some st \<Rightarrow>
               Inr \<lparr>defaultMode = m, editor = e, claudeCodePath = c,
                    includeSecurityChecklist = Some cl, includeStandards = Some st\<rparr>)))))
      | _ \<Rightarrow> Inl ZodError)"

definition ProjectConfigSchema_parse :: "jsval \<Rightarrow> error + ProjectConfig" where
  "ProjectConfigSchema_parse v =
     (case v of
        JObj kvs \<Rightarrow>
          (case z_optional ModeSchema_safeParse (getProp kvs ''mode'') of
             None \<Rightarrow> Inl ZodError
           | Some m \<Rightarrow>
          (case z_optional z_string (getProp kvs ''projectName'') of
             None \<Rightarrow> Inl ZodError
           | Some n \<Rightarrow>
          (case z_optional z_string (getProp kvs ''template'') of
             None \<Rightarrow> Inl ZodError
           | Some t \<Rightarrow>
          (case z_optional (z_array z_string) (getProp kvs ''customPrompts'') of
             None \<Rightarrow> Inl ZodError
           | Some cp \<Rightarrow>
          (case z_optional ChecklistTypeSchema_safeParse
                  (getProp kvs ''includeSecurityChecklist'') of
             None \<Rightarrow> Inl ZodError
           | Some cl \<Rightarrow>
          (case z_optional (z_array StandardTypeSchema_safeParse)
                  (getProp kvs ''includeStandards'') of
             None \<Rightarrow> Inl ZodError
           | Some st \<Rightarrow>
               Inr \<lparr>ProjectConfig.mode = m, projectName = n, template = t, customPrompts = cp,
                    includeSecurityChecklist = cl, includeStandards = st\<rparr>))))))
      | _ \<Rightarrow> Inl ZodError)"

text \<open>\<open>DEFAULT_CONFIG\<close>: the hardcoded defaults.\<close>

definition DEFAULT_CONFIG :: MergedConfig where
  "DEFAULT_CONFIG =
     \<lparr>MergedConfig.mode = Guided, editor = None, claudeCodePath = None, projectName = None,
      template = None, customPrompts = [], includeSecurityChecklist = CPre,
      includeStandards = [STypescript]\<rparr>"

section \<open>Config merge (src/core/config-manager.ts)\<close>

text \<open>
  \<open>a ?? b\<close> with \<open>b\<close> always defined, \<open>a ?? b\<close> with \<open>b\<close> possibly
  undefined, and \<open>project?.field\<close> on a project that may be \<open>null\<close>.
\<close>

fun nullish :: "'a option \<Rightarrow> 'a \<Rightarrow> 'a" where
  "nullish None b = b"
| "nullish (Some a) b = a"

fun nullish_opt :: "'a option \<Rightarrow> 'a option \<Rightarrow> 'a option" where
  "nullish_opt None b = b"
| "nullish_opt (Some a) b = Some a"

fun opt_chain :: "'r option \<Rightarrow> ('r \<Rightarrow> 'a option) \<Rightarrow> 'a option" where
  "opt_chain None sel = None"
| "opt_chain (Some r) sel = sel r"

definition mergeConfigs :: "GlobalConfig \<Rightarrow> ProjectConfig option \<Rightarrow> MergedConfig" where
  "mergeConfigs global project =
     \<lparr>MergedConfig.mode = nullish (opt_chain project ProjectConfig.mode) (defaultMode global),
      editor = GlobalConfig.editor global,
      claudeCodePath = GlobalConfig.claudeCodePath global,
      projectName = opt_chain project ProjectConfig.projectName,
      template = opt_chain project ProjectConfig.template,
      customPrompts =
        nullish (opt_chain project ProjectConfig.customPrompts)
          (MergedConfig.customPrompts DEFAULT_CONFIG),
      includeSecurityChecklist =
        nullish
          (nullish_opt (opt_chain project ProjectConfig.includeSecurityChecklist)
             (GlobalConfig.includeSecurityChecklist global))
          (MergedConfig.includeSecurityChecklist DEFAULT_CONFIG),
      includeStandards =
        nullish
          (nullish_opt (opt_chain project ProjectConfig.includeStandards)
             (GlobalConfig.includeStandards global))
          (MergedConfig.includeStandards DEFAULT_CONFIG)\<rparr>"

section \<open>Config store (src/core/config-manager.ts)\<close>

text \<open>
  The file system. A file holds its content and its modification time. The content
  of a file is kept as what \<open>JSON.parse\<close> makes of its text: \<open>JsonDoc v\<close> when
  the text parses to \<open>v\<close>, \<open>NotJson s\<close> when \<open>JSON.parse\<close> throws on the text
  \<open>s\<close>. \<open>Markdown c\<close> is the derived document generated from the merged config
  \<open>c\<close>; it is Markdown text, not JSON. The \<open>fs\<close> calls of Node can fail for
  reasons the program does not control (permissions, a full disk): \<open>denied\<close> says
  for which operation and path they do. \<open>now\<close> is the clock that stamps a written
  file, and \<open>homedir\<close> is what \<open>os.homedir()\<close> returns.
\<close>

datatype content = JsonDoc jsval | NotJson string | Markdown MergedConfig

datatype operation = Access | Read | Write | Stat

record fsfile =
  content :: content
  mtime :: nat

record fs =
  files :: "string \<Rightarrow> fsfile option"
  denied :: "operation \<Rightarrow> string \<Rightarrow> bool"
  now :: nat
  homedir :: string

text \<open>
  Paths. Every command passes \<open>resolve(".")\<close> as the project root, an absolute
  normalised path, on which \<open>resolve\<close> is the identity and \<open>join\<close> is
  concatenation with a separator.
\<close>

definition VIBE_DIR :: string where
  "VIBE_DIR = ''.vibe''"

definition CONFIG_FILE :: string where
  "CONFIG_FILE = ''config.json''"

definition join :: "string \<Rightarrow> string \<Rightarrow> string" where
  "join a b = a @ ''/'' @ b"

definition getGlobalConfigDir :: "fs \<Rightarrow> string" where
  "getGlobalConfigDir s = join (homedir s) VIBE_DIR"

definition getGlobalConfigPath :: "fs \<Rightarrow> string" where
  "getGlobalConfigPath s = join (getGlobalConfigDir s) CONFIG_FILE"

definition getProjectConfigDir :: "string \<Rightarrow> string" where
  "getProjectConfigDir projectRoot = join projectRoot VIBE_DIR"

definition getProjectConfigPath :: "string \<Rightarrow> string" where
  "getProjectConfigPath projectRoot = join (getProjectConfigDir projectRoot) CONFIG_FILE"

definition fileExists :: "fs \<Rightarrow> string \<Rightarrow> bool" where
  "fileExists s path = (\<not> denied s Access path \<and> files s path \<noteq> None)"

text \<open>
  \<open>readJsonFile\<close>: everything thrown inside its \<open>try\<close> block (by \<open>readFile\<close>,
  \<open>JSON.parse\<close> or \<open>schema.parse\<close>) is caught and returned as a failure.
\<close>

definition readJsonFile :: "fs \<Rightarrow> string \<Rightarrow> (jsval \<Rightarrow> error + 'a) \<Rightarrow> 'a Result" where
  "readJsonFile s path schema_parse =
     (if \<not> fileExists s path then Failure (FileNotFound path)
      else if denied s Read path then Failure IOError
      else (case files s path of
              None \<Rightarrow> Failure IOError
            | Some f \<Rightarrow>
                (case content f of
                   JsonDoc json \<Rightarrow>
                     (case schema_parse json of
                        Inl e \<Rightarrow> Failure e
                      | Inr validated \<Rightarrow> Success validated)
                 | NotJson t \<Rightarrow> Failure SyntaxError
                 | Markdown c \<Rightarrow> Failure SyntaxError)))"

text \<open>
  \<open>writeJsonFile\<close>: \<open>mkdir\<close> and \<open>writeFile\<close> either both go through or one
  of them throws, which is caught and returned as a failure. The data is what
  \<open>JSON.parse\<close> reads back from the text \<open>JSON.stringify(data, null, 2)\<close> and a newline.
\<close>

definition writeFile :: "fs \<Rightarrow> string \<Rightarrow> content \<Rightarrow> fs" where
  "writeFile s path c =
     s\<lparr>files := (files s)(path \<mapsto> \<lparr>content = c, mtime = now s\<rparr>), now := Suc (now s)\<rparr>"

definition writeJsonFile :: "fs \<Rightarrow> string \<Rightarrow> jsval \<Rightarrow> unit Result \<times> fs" where
  "writeJsonFile s path data =
     (if denied s Write path then (Failure IOError, s)
      else (Success (), writeFile s path (JsonDoc data)))"

text \<open>
  A validated config as the object that is serialised: \<open>JSON.stringify\<close> leaves
  out every key whose value is \<open>undefined\<close>.
\<close>

definition entry :: "string \<Rightarrow> ('a \<Rightarrow> jsval) \<Rightarrow> 'a option \<Rightarrow> (string \<times> jsval) list" where
  "entry k enc v = (case v of None \<Rightarrow> [] | Some x \<Rightarrow> [(k, enc x)])"

definition GlobalConfig_toJs :: "GlobalConfig \<Rightarrow> jsval" where
  "GlobalConfig_toJs c =
     JObj ([(''defaultMode'', JStr (Mode_str (defaultMode c)))]
         @ entry ''editor'' JStr (GlobalConfig.editor c)
         @ entry ''claudeCodePath'' JStr (GlobalConfig.claudeCodePath c)
         @ entry ''includeSecurityChecklist'' (\<lambda>x. JStr (ChecklistType_str x))
             (GlobalConfig.includeSecurityChecklist c)
         @ entry ''includeStandards'' (\<lambda>xs. JArr (map (\<lambda>x. JStr (StandardType_str x)) xs))
             (GlobalConfig.includeStandards c))"

definition ProjectConfig_toJs :: "ProjectConfig \<Rightarrow> jsval" where
  "ProjectConfig_toJs c =
     JObj (entry ''mode'' (\<lambda>x. JStr (Mode_str x)) (ProjectConfig.mode c)
         @ entry ''projectName'' JStr (ProjectConfig.projectName c)
         @ entry ''template'' JStr (ProjectConfig.template c)
         @ entry ''customPrompts'' (\<lambda>xs. JArr (map JStr xs)) (ProjectConfig.customPrompts c)
         @ entry ''includeSecurityChecklist'' (\<lambda>x. JStr (ChecklistType_str x))
             (ProjectConfig.includeSecurityChecklist c)
         @ entry ''includeStandards'' (\<lambda>xs. JArr (map (\<lambda>x. JStr (StandardType_str x)) xs))
             (ProjectConfig.includeStandards c))"

definition readGlobalConfig :: "fs \<Rightarrow> GlobalConfig Result" where
  "readGlobalConfig s =
     (let path = getGlobalConfigPath s in
      if \<not> fileExists s path then
        Success \<lparr>defaultMode = MergedConfig.mode DEFAULT_CONFIG, editor = None,
                 claudeCodePath = None,
                 includeSecurityChecklist = Some (MergedConfig.includeSecurityChecklist DEFAULT_CONFIG),
                 includeStandards = Some (MergedConfig.includeStandards DEFAULT_CONFIG)\<rparr>
      else readJsonFile s path GlobalConfigSchema_parse)"

text \<open>
  The two writers validate with \<open>schema.parse\<close> outside any \<open>try\<close> block: a
  schema violation is thrown out of the function. Their argument is the run-time
  value they are handed.
\<close>

definition writeGlobalConfig :: "fs \<Rightarrow> jsval \<Rightarrow> unit Result completion \<times> fs" where
  "writeGlobalConfig s config =
     (case GlobalConfigSchema_parse config of
        Inl e \<Rightarrow> (Throws e, s)
      | Inr validated \<Rightarrow>
          (case writeJsonFile s (getGlobalConfigPath s) (GlobalConfig_toJs validated) of
             (r, s') \<Rightarrow> (Returns r, s')))"

definition readProjectConfig :: "fs \<Rightarrow> string \<Rightarrow> ProjectConfig option Result" where
  "readProjectConfig s projectRoot =
     (let path = getProjectConfigPath projectRoot in
      if \<not> fileExists s path then Success None
      else (case readJsonFile s path ProjectConfigSchema_parse of
              Failure e \<Rightarrow> Failure e
            | Success d \<Rightarrow> Success (Some d)))"

definition writeProjectConfig :: "fs \<Rightarrow> string \<Rightarrow> jsval \<Rightarrow> unit Result completion \<times> fs" where
  "writeProjectConfig s projectRoot config =
     (case ProjectConfigSchema_parse config of
        Inl e \<Rightarrow> (Throws e, s)
      | Inr validated \<Rightarrow>
          (case writeJsonFile s (getProjectConfigPath projectRoot) (ProjectConfig_toJs validated) of
             (r, s') \<Rightarrow> (Returns r, s')))"

definition isProjectInitialized :: "fs \<Rightarrow> string \<Rightarrow> bool" where
  "isProjectInitialized s projectRoot = fileExists s (getProjectConfigPath projectRoot)"

definition loadConfig :: "fs \<Rightarrow> string \<Rightarrow> MergedConfig Result" where
  "loadConfig s projectRoot =
     (case readGlobalConfig s of
        Failure e \<Rightarrow> Failure e
      | Success global \<Rightarrow>
          (case readProjectConfig s projectRoot of
             Failure e \<Rightarrow> Failure e
           | Success project \<Rightarrow> Success (mergeConfigs global project)))"

text \<open>The empty object \<open>{}\<close> as a project config, and the spread with a new mode.\<close>

definition emptyProjectConfig :: ProjectConfig where
  "emptyProjectConfig =
     \<lparr>ProjectConfig.mode = None, projectName = None, template = None, customPrompts = None,
      includeSecurityChecklist = None, includeStandards = None\<rparr>"


section \<open>Prompt builder (src/core/prompt-builder.ts)\<close>

text \<open>
  Modelled from the spec: \<open>getClaudeMdPath\<close> and \<open>buildClaudeMd\<close> of
  \<open>prompt-builder.ts\<close>, which is not among the sources. The derived document is
  \<open><project-root>/CLAUDE.md\<close>; building it takes a merged config and a project root
  and gives back either a success with the written file's path or a failure; it
  overwrites any prior document, the same config gives the same document, and it
  touches no other file. It fails when the document cannot be written.
\<close>

definition getClaudeMdPath :: "string \<Rightarrow> string" where
  "getClaudeMdPath projectRoot = join projectRoot ''CLAUDE.md''"

definition buildClaudeMd :: "fs \<Rightarrow> MergedConfig \<Rightarrow> string \<Rightarrow> string Result \<times> fs" where
  "buildClaudeMd s config projectRoot =
     (let path = getClaudeMdPath projectRoot in
      if denied s Write path then (Failure IOError, s)
      else (Success path, writeFile s path (Markdown config)))"

section \<open>Mode manager (src/core/mode-manager.ts)\<close>


record SwitchResult =
  previousMode :: Mode
  newMode :: Mode
  claudeMdPath :: string

definition switchMode :: "fs \<Rightarrow> string \<Rightarrow> Mode \<Rightarrow> SwitchResult Result completion \<times> fs" where
  "switchMode s projectRoot m =
     (if \<not> isProjectInitialized s projectRoot then (Returns (Failure NotInitialized), s)
      else
        (case loadConfig s projectRoot of
           Failure e \<Rightarrow> (Returns (Failure e), s)
         | Success config \<Rightarrow>
        (case readProjectConfig s projectRoot of
           Failure e \<Rightarrow> (Returns (Failure e), s)
         | Success existing \<Rightarrow>
        (let updatedConfig =
               (nullish existing emptyProjectConfig)\<lparr>ProjectConfig.mode := Some m\<rparr>
         in
        (case writeProjectConfig s projectRoot (ProjectConfig_toJs updatedConfig) of
           (Throws e, s1) \<Rightarrow> (Throws e, s1)
         | (Returns (Failure e), s1) \<Rightarrow> (Returns (Failure e), s1)
         | (Returns (Success u), s1) \<Rightarrow>
        (case loadConfig s1 projectRoot of
           Failure e \<Rightarrow> (Returns (Failure e), s1)
         | Success newConfig \<Rightarrow>
        (case buildClaudeMd s1 newConfig projectRoot of
           (Failure e, s2) \<Rightarrow> (Returns (Failure e), s2)
         | (Success path, s2) \<Rightarrow>
             (Returns (Success \<lparr>previousMode = MergedConfig.mode config, newMode = m,
                                 claudeMdPath = path\<rparr>), s2))))))))"

text \<open>
  The read-spread-write step of \<open>switchMode\<close> on its own (the lines from
  ``Read existing project config'' to the check of the write result): what it
  returns early with, or \<open>Success ()\<close> when \<open>switchMode\<close> goes on.
\<close>

definition switchMode_update :: "fs \<Rightarrow> string \<Rightarrow> Mode \<Rightarrow> unit Result completion \<times> fs" where
  "switchMode_update s projectRoot m =
     (case readProjectConfig s projectRoot of
        Failure e \<Rightarrow> (Returns (Failure e), s)
      | Success existing \<Rightarrow>
          (let updatedConfig =
                 (nullish existing emptyProjectConfig)\<lparr>ProjectConfig.mode := Some m\<rparr>
           in
           (case writeProjectConfig s projectRoot (ProjectConfig_toJs updatedConfig) of
              (Throws e, s1) \<Rightarrow> (Throws e, s1)
            | (Returns (Failure e), s1) \<Rightarrow> (Returns (Failure e), s1)
            | (Returns (Success u), s1) \<Rightarrow> (Returns (Success ()), s1))))"

section \<open>The start command (src/commands/start.ts) and its exit codes\<close>





definition NOT_FOUND :: int where
  "NOT_FOUND = 4"

definition PERMISSION_DENIED :: int where
  "PERMISSION_DENIED = 5"

record StartOptions =
  mode :: "Mode option"
  claudePath :: "string option"
  regenerate :: "bool option"






section \<open>The mode command (src/commands/mode.ts)\<close>





section \<open>Version comparison (src/core/claude-integration.ts)\<close>

text \<open>
  \<open>parseVersion\<close> matches \<open>/^v?(\d+)\.(\d+)\.(\d+)/\<close>. The match needs no
  backtracking: a greedy \<open>\d+\<close> is followed by a character that is not a
  digit, and a \<open>v\<close> that is skipped is not a digit either. The pattern has no
  end anchor, so anything may follow the third number. \<open>parseInt(x, 10)\<close> turns
  a run of digits into a JavaScript number, rounding beyond 2^53; the comparison
  only uses the order of the numbers it gets, so \<open>parseInt\<close> is a parameter
  into any linear order, and \<open>decimal\<close> is the exact reading.
\<close>

definition isDigit :: "char \<Rightarrow> bool" where
  "isDigit c = (c \<in> set ''0123456789'')"

definition digits :: "string \<Rightarrow> (string \<times> string) option" where
  "digits s =
     (let d = takeWhile isDigit s in
      if d = [] then None else Some (d, dropWhile isDigit s))"

definition dot :: "string \<Rightarrow> string option" where
  "dot s = (case s of [] \<Rightarrow> None | c # r \<Rightarrow> if c = CHR ''.'' then Some r else None)"

definition optional_v :: "string \<Rightarrow> string" where
  "optional_v s = (case s of [] \<Rightarrow> [] | c # r \<Rightarrow> if c = CHR ''v'' then r else c # r)"

definition version_match :: "string \<Rightarrow> (string \<times> string \<times> string) option" where
  "version_match version =
     (case digits (optional_v version) of
        None \<Rightarrow> None
      | Some (m1, r1) \<Rightarrow>
     (case dot r1 of
        None \<Rightarrow> None
      | Some r2 \<Rightarrow>
     (case digits r2 of
        None \<Rightarrow> None
      | Some (m2, r3) \<Rightarrow>
     (case dot r3 of
        None \<Rightarrow> None
      | Some r4 \<Rightarrow>
     (case digits r4 of
        None \<Rightarrow> None
      | Some (m3, r5) \<Rightarrow> Some (m1, m2, m3))))))"

record 'n version =
  major :: 'n
  minor :: 'n
  patch :: 'n

definition parseVersion :: "(string \<Rightarrow> 'n) \<Rightarrow> string \<Rightarrow> 'n version option" where
  "parseVersion parseInt version =
     (case version_match version of
        None \<Rightarrow> None
      | Some (m1, m2, m3) \<Rightarrow>
          if m1 = [] \<or> m2 = [] \<or> m3 = [] then None
          else Some \<lparr>major = parseInt m1, minor = parseInt m2, patch = parseInt m3\<rparr>)"

definition compareVersions :: "(string \<Rightarrow> 'n::linorder) \<Rightarrow> string \<Rightarrow> string \<Rightarrow> int" where
  "compareVersions parseInt a b =
     (case parseVersion parseInt a of
        None \<Rightarrow> 0
      | Some vA \<Rightarrow>
     (case parseVersion parseInt b of
        None \<Rightarrow> 0
      | Some vB \<Rightarrow>
          if major vA \<noteq> major vB then (if major vA > major vB then 1 else - 1)
          else if minor vA \<noteq> minor vB then (if minor vA > minor vB then 1 else - 1)
          else if patch vA \<noteq> patch vB then (if patch vA > patch vB then 1 else - 1)
          else 0))"

definition digit_val :: "char \<Rightarrow> nat" where
  "digit_val c = of_char c - 48"

definition decimal :: "string \<Rightarrow> nat" where
  "decimal ds = foldl (\<lambda>acc c. 10 * acc + digit_val c) 0 ds"

section \<open>Example states\<close>

text \<open>
  A project at \<open>/p\<close> whose config file holds
  \<open>{"mode": "learning", "projectName": "foo", "customPrompts": ["x"]}\<close>, with no
  global config file and no derived document; the same with the derived document
  write-protected; and a file system with no file at all.
\<close>

definition example_project :: ProjectConfig where
  "example_project =
     \<lparr>ProjectConfig.mode = Some Learning, projectName = Some ''foo'', template = None,
      customPrompts = Some [''x''], includeSecurityChecklist = None, includeStandards = None\<rparr>"

definition fs_blank :: fs where
  "fs_blank = \<lparr>files = (\<lambda>p. None), denied = (\<lambda>op p. False), now = 0, homedir = ''/home/u''\<rparr>"

definition fs_project :: fs where
  "fs_project =
     \<lparr>files = [''/p/.vibe/config.json'' \<mapsto>
         \<lparr>content = JsonDoc (JObj [(''mode'', JStr ''learning''), (''projectName'', JStr ''foo''),
                                   (''customPrompts'', JArr [JStr ''x''])]),
          mtime = 1\<rparr>],
      denied = (\<lambda>op p. False), now = 2, homedir = ''/home/u''\<rparr>"

definition fs_document_locked :: fs where
  "fs_document_locked = fs_project\<lparr>denied := (\<lambda>op p. op = Write \<and> p = ''/p/CLAUDE.md'')\<rparr>"

text \<open>
  The global config that \<open>readGlobalConfig\<close> returns when there is no global
  file; the example project with an older derived document beside it; and the
  example config after a switch to \<open>guided\<close>.
\<close>

definition default_global :: GlobalConfig where
  "default_global =
     \<lparr>defaultMode = Guided, editor = None, claudeCodePath = None,
      includeSecurityChecklist = Some CPre, includeStandards = Some [STypescript]\<rparr>"

definition fs_with_document :: fs where
  "fs_with_document =
     fs_project\<lparr>files := (files fs_project)(''/p/CLAUDE.md'' \<mapsto>
                    \<lparr>content = NotJson ''stale'', mtime = 5\<rparr>),
                now := 6\<rparr>"

definition example_updated :: ProjectConfig where
  "example_updated = example_project\<lparr>ProjectConfig.mode := Some Guided\<rparr>"





section \<open>Validation reads back what serialisation wrote\<close>

lemma Mode_roundtrip: "ModeSchema_safeParse (JStr (Mode_str m)) = Some m"
  by (cases m) simp_all

lemma ChecklistType_roundtrip: "ChecklistTypeSchema_safeParse (JStr (ChecklistType_str c)) = Some c"
  by (cases c) simp_all

lemma StandardType_roundtrip: "StandardTypeSchema_safeParse (JStr (StandardType_str x)) = Some x"
  by (cases x) simp_all

lemma those_map_roundtrip:
  assumes "\<And>x. dec (enc x) = Some x"
  shows "those (map (dec \<circ> enc) xs) = Some xs"
  using assms by (induction xs) simp_all

lemma strings_roundtrip: "z_array z_string (JArr (map JStr xs)) = Some xs"
  by (simp add: those_map_roundtrip)

lemma standards_roundtrip:
  "z_array StandardTypeSchema_safeParse (JArr (map (\<lambda>x. JStr (StandardType_str x)) xs)) = Some xs"
  by (induction xs)
     (simp_all add: StandardType_roundtrip del: StandardTypeSchema_safeParse.simps)

lemma getProp_entry_append_same:
  "getProp rest k = JUndefined \<Longrightarrow>
   getProp (entry k enc v @ rest) k = (case v of None \<Rightarrow> JUndefined | Some x \<Rightarrow> enc x)"
  by (simp add: entry_def getProp_def split: option.split)

lemma getProp_entry_append_other:
  "k' \<noteq> k \<Longrightarrow> getProp (entry k enc v @ rest) k' = getProp rest k'"
  by (simp add: entry_def getProp_def split: option.split)

lemma getProp_entry_same:
  "getProp (entry k enc v) k = (case v of None \<Rightarrow> JUndefined | Some x \<Rightarrow> enc x)"
  by (simp add: entry_def getProp_def split: option.split)

lemma getProp_entry_other:
  "k' \<noteq> k \<Longrightarrow> getProp (entry k enc v) k' = JUndefined"
  by (simp add: entry_def getProp_def split: option.split)

lemmas getProp_entries =
  getProp_entry_append_same getProp_entry_append_other getProp_entry_same getProp_entry_other

lemma z_optional_enc:
  assumes "\<And>x. inner (enc x) = Some x" and "\<And>x. enc x \<noteq> JUndefined"
  shows "z_optional inner (case v of None \<Rightarrow> JUndefined | Some x \<Rightarrow> enc x) = Some v"
proof (cases v)
  case None
  then show ?thesis by simp
next
  case (Some x)
  have "z_optional inner (enc x) = map_option Some (inner (enc x))"
    using assms(2) [of x] by (cases "enc x") simp_all
  with Some show ?thesis by (simp add: assms(1))
qed

lemma z_default_enc:
  assumes "\<And>x. inner (enc x) = Some x" and "\<And>x. enc x \<noteq> JUndefined"
  shows "z_default d inner (case v of None \<Rightarrow> JUndefined | Some x \<Rightarrow> enc x) = Some (nullish v d)"
proof (cases v)
  case None
  then show ?thesis by simp
next
  case (Some x)
  have "z_default d inner (enc x) = inner (enc x)"
    using assms(2) [of x] by (cases "enc x") simp_all
  with Some show ?thesis by (simp add: assms(1))
qed

lemma ProjectConfig_roundtrip: "ProjectConfigSchema_parse (ProjectConfig_toJs c) = Inr c"
  by (simp add: ProjectConfigSchema_parse_def ProjectConfig_toJs_def getProp_entries
       z_optional_enc Mode_roundtrip ChecklistType_roundtrip strings_roundtrip standards_roundtrip
       del: ModeSchema_safeParse.simps ChecklistTypeSchema_safeParse.simps
         StandardTypeSchema_safeParse.simps z_array.simps)

lemma GlobalConfigSchema_parse_ProjectConfig:
  "GlobalConfigSchema_parse (ProjectConfig_toJs c) =
     Inr \<lparr>defaultMode = Guided, editor = None, claudeCodePath = None,
          includeSecurityChecklist = Some (nullish (ProjectConfig.includeSecurityChecklist c) CPre),
          includeStandards = Some (nullish (ProjectConfig.includeStandards c) [STypescript])\<rparr>"
  by (simp add: GlobalConfigSchema_parse_def ProjectConfig_toJs_def getProp_entries
       z_default_enc ChecklistType_roundtrip standards_roundtrip
       del: ModeSchema_safeParse.simps ChecklistTypeSchema_safeParse.simps
         StandardTypeSchema_safeParse.simps z_array.simps)

section \<open>The file system under the operations\<close>

lemma last_claudeMdPath: "last (getClaudeMdPath r) = CHR ''d''"
  by (simp add: getClaudeMdPath_def join_def)

lemma last_projectConfigPath: "last (getProjectConfigPath r) = CHR ''n''"
  by (simp add: getProjectConfigPath_def getProjectConfigDir_def join_def CONFIG_FILE_def)

lemma last_globalConfigPath: "last (getGlobalConfigPath s) = CHR ''n''"
  by (simp add: getGlobalConfigPath_def getGlobalConfigDir_def join_def CONFIG_FILE_def)

lemma claudeMd_ne_projectConfig [simp]:
  "getClaudeMdPath r \<noteq> getProjectConfigPath r'" "getProjectConfigPath r' \<noteq> getClaudeMdPath r"
  using last_claudeMdPath [of r] last_projectConfigPath [of r'] by auto

lemma claudeMd_ne_globalConfig [simp]:
  "getClaudeMdPath r \<noteq> getGlobalConfigPath s" "getGlobalConfigPath s \<noteq> getClaudeMdPath r"
  using last_claudeMdPath [of r] last_globalConfigPath [of s] by auto

lemma writeFile_simps [simp]:
  "files (writeFile s p c) = (files s)(p \<mapsto> \<lparr>content = c, mtime = now s\<rparr>)"
  "denied (writeFile s p c) = denied s"
  "homedir (writeFile s p c) = homedir s"
  "now (writeFile s p c) = Suc (now s)"
  by (simp_all add: writeFile_def)

lemma getGlobalConfigPath_writeFile [simp]:
  "getGlobalConfigPath (writeFile s p c) = getGlobalConfigPath s"
  by (simp add: getGlobalConfigPath_def getGlobalConfigDir_def)

lemma fileExists_writeFile:
  "fileExists (writeFile s p c) q = (if q = p then \<not> denied s Access p else fileExists s q)"
  by (simp add: fileExists_def)

lemma readJsonFile_writeFile_other:
  "q \<noteq> p \<Longrightarrow> readJsonFile (writeFile s p c) q sch = readJsonFile s q sch"
  by (simp add: readJsonFile_def fileExists_writeFile)

lemma readJsonFile_writeFile_same:
  "readJsonFile (writeFile s p (JsonDoc j)) p sch =
     (if denied s Access p then Failure (FileNotFound p)
      else if denied s Read p then Failure IOError
      else (case sch j of Inl e \<Rightarrow> Failure e | Inr v \<Rightarrow> Success v))"
  by (simp add: readJsonFile_def fileExists_writeFile)

lemma writeProjectConfig_toJs:
  "writeProjectConfig s root (ProjectConfig_toJs c) =
     (if denied s Write (getProjectConfigPath root) then (Returns (Failure IOError), s)
      else (Returns (Success ()),
            writeFile s (getProjectConfigPath root) (JsonDoc (ProjectConfig_toJs c))))"
  by (simp add: writeProjectConfig_def ProjectConfig_roundtrip writeJsonFile_def)

lemma readProjectConfig_Some_readable:
  assumes "readProjectConfig s root = Success (Some cfg)"
  shows "fileExists s (getProjectConfigPath root) \<and> \<not> denied s Read (getProjectConfigPath root)"
  using assms
  by (auto simp add: readProjectConfig_def readJsonFile_def Let_def split: if_splits Result.splits)

lemma readProjectConfig_after_write:
  assumes "\<not> denied s Access (getProjectConfigPath root)"
      and "\<not> denied s Read (getProjectConfigPath root)"
  shows "readProjectConfig (writeFile s (getProjectConfigPath root) (JsonDoc (ProjectConfig_toJs c))) root
           = Success (Some c)"
  using assms
  by (simp add: readProjectConfig_def Let_def fileExists_writeFile readJsonFile_writeFile_same
        ProjectConfig_roundtrip)

lemma readProjectConfig_writeFile_claudeMd [simp]:
  "readProjectConfig (writeFile s (getClaudeMdPath r) c) root = readProjectConfig s root"
  by (simp add: readProjectConfig_def Let_def fileExists_writeFile readJsonFile_writeFile_other)

lemma readGlobalConfig_writeFile_claudeMd [simp]:
  "readGlobalConfig (writeFile s (getClaudeMdPath r) c) = readGlobalConfig s"
  by (simp add: readGlobalConfig_def Let_def fileExists_writeFile readJsonFile_writeFile_other)

lemma loadConfig_writeFile_claudeMd [simp]:
  "loadConfig (writeFile s (getClaudeMdPath r) c) root = loadConfig s root"
  by (simp add: loadConfig_def split: Result.split)

lemma readGlobalConfig_after_write:
  assumes "readGlobalConfig s = Success g"
      and "\<not> denied s Read (getProjectConfigPath root)"
  shows "\<exists>g'. readGlobalConfig (writeFile s (getProjectConfigPath root) (JsonDoc (ProjectConfig_toJs c)))
           = Success g'"
proof (cases "getGlobalConfigPath s = getProjectConfigPath root")
  case True
  then show ?thesis
    using assms(2)
    by (simp add: readGlobalConfig_def Let_def fileExists_writeFile readJsonFile_writeFile_same
          GlobalConfigSchema_parse_ProjectConfig)
next
  case False
  then have "readGlobalConfig (writeFile s (getProjectConfigPath root) (JsonDoc (ProjectConfig_toJs c)))
               = readGlobalConfig s"
    by (simp add: readGlobalConfig_def Let_def fileExists_writeFile readJsonFile_writeFile_other)
  with assms(1) show ?thesis by simp
qed

lemma buildClaudeMd_eq:
  "buildClaudeMd s c root =
     (if denied s Write (getClaudeMdPath root) then (Failure IOError, s)
      else (Success (getClaudeMdPath root), writeFile s (getClaudeMdPath root) (Markdown c)))"
  by (simp add: buildClaudeMd_def Let_def)


lemma loadConfig_Success_parts:
  assumes "loadConfig s root = Success config"
  shows "\<exists>g p. readGlobalConfig s = Success g \<and> readProjectConfig s root = Success p
           \<and> config = mergeConfigs g p"
  using assms by (auto simp add: loadConfig_def split: Result.splits)

lemma readProjectConfig_initialized:
  assumes "isProjectInitialized s root" and "readProjectConfig s root = Success p"
  shows "\<exists>cfg. p = Some cfg"
  using assms
  by (auto simp add: isProjectInitialized_def readProjectConfig_def Let_def split: Result.splits)

lemma mergeConfigs_mode_Some:
  "MergedConfig.mode (mergeConfigs g (Some (cfg\<lparr>ProjectConfig.mode := Some m\<rparr>))) = m"
  by (simp add: mergeConfigs_def)

lemma loadConfig_after_write:
  assumes "readGlobalConfig s = Success g"
      and "\<not> denied s Access (getProjectConfigPath root)"
      and "\<not> denied s Read (getProjectConfigPath root)"
  shows "\<exists>g'. loadConfig (writeFile s (getProjectConfigPath root) (JsonDoc (ProjectConfig_toJs c))) root
           = Success (mergeConfigs g' (Some c))"
proof -
  obtain g' where "readGlobalConfig (writeFile s (getProjectConfigPath root)
      (JsonDoc (ProjectConfig_toJs c))) = Success g'"
    using readGlobalConfig_after_write [OF assms(1) assms(3)] by blast
  then show ?thesis
    using readProjectConfig_after_write [OF assms(2) assms(3), of c]
    by (auto simp add: loadConfig_def)
qed

text \<open>switchMode once the three reads have gone through.\<close>

lemma switchMode_after_reads:
  assumes init: "isProjectInitialized s root"
      and load: "loadConfig s root = Success config"
      and rd: "readProjectConfig s root = Success (Some cfg)"
  shows "\<exists>g'.
     loadConfig (writeFile s (getProjectConfigPath root)
        (JsonDoc (ProjectConfig_toJs (cfg\<lparr>ProjectConfig.mode := Some m\<rparr>)))) root
       = Success (mergeConfigs g' (Some (cfg\<lparr>ProjectConfig.mode := Some m\<rparr>))) \<and>
     switchMode s root m =
     (let p = getProjectConfigPath root;
          updated = cfg\<lparr>ProjectConfig.mode := Some m\<rparr>;
          s1 = writeFile s p (JsonDoc (ProjectConfig_toJs updated));
          newConfig = mergeConfigs g' (Some updated)
      in if denied s Write p then (Returns (Failure IOError), s)
         else if denied s Write (getClaudeMdPath root) then (Returns (Failure IOError), s1)
         else (Returns (Success \<lparr>previousMode = MergedConfig.mode config, newMode = m,
                                  claudeMdPath = getClaudeMdPath root\<rparr>),
               writeFile s1 (getClaudeMdPath root) (Markdown newConfig)))"
proof -
  obtain g where g: "readGlobalConfig s = Success g"
    using loadConfig_Success_parts [OF load] by blast
  have acc: "\<not> denied s Access (getProjectConfigPath root)"
    using init by (simp add: isProjectInitialized_def fileExists_def)
  have rdb: "\<not> denied s Read (getProjectConfigPath root)"
    using readProjectConfig_Some_readable [OF rd] by simp
  obtain g' where g': "loadConfig (writeFile s (getProjectConfigPath root)
      (JsonDoc (ProjectConfig_toJs (cfg\<lparr>ProjectConfig.mode := Some m\<rparr>)))) root
        = Success (mergeConfigs g' (Some (cfg\<lparr>ProjectConfig.mode := Some m\<rparr>)))"
    using loadConfig_after_write [OF g acc rdb] by blast
  show ?thesis
    using init load rd g'
    by (intro exI [of _ g'])
       (simp add: switchMode_def Let_def writeProjectConfig_toJs buildClaudeMd_eq)
qed

section \<open>The example states evaluated\<close>

lemma fs_project_sel:
  "files fs_project = [''/p/.vibe/config.json'' \<mapsto>
         \<lparr>content = JsonDoc (JObj [(''mode'', JStr ''learning''), (''projectName'', JStr ''foo''),
                                   (''customPrompts'', JArr [JStr ''x''])]),
          mtime = 1\<rparr>]"
  "denied fs_project = (\<lambda>op p. False)"
  "now fs_project = 2"
  "homedir fs_project = ''/home/u''"
  by (simp_all add: fs_project_def)

lemma fs_document_locked_sel:
  "files fs_document_locked = files fs_project"
  "denied fs_document_locked = (\<lambda>op p. op = Write \<and> p = ''/p/CLAUDE.md'')"
  "now fs_document_locked = 2"
  "homedir fs_document_locked = ''/home/u''"
  by (simp_all add: fs_document_locked_def fs_project_def)

lemma fs_blank_sel:
  "files fs_blank = (\<lambda>p. None)"
  "denied fs_blank = (\<lambda>op p. False)"
  "now fs_blank = 0"
  "homedir fs_blank = ''/home/u''"
  by (simp_all add: fs_blank_def)

lemma paths_example:
  "getProjectConfigPath ''/p'' = ''/p/.vibe/config.json''"
  "getClaudeMdPath ''/p'' = ''/p/CLAUDE.md''"
  "getGlobalConfigPath fs_project = ''/home/u/.vibe/config.json''"
  "getGlobalConfigPath fs_blank = ''/home/u/.vibe/config.json''"
  "getGlobalConfigPath fs_document_locked = ''/home/u/.vibe/config.json''"
  by (simp_all add: getProjectConfigPath_def getProjectConfigDir_def getClaudeMdPath_def
        getGlobalConfigPath_def getGlobalConfigDir_def join_def VIBE_DIR_def CONFIG_FILE_def
        fs_project_sel fs_blank_sel fs_document_locked_sel)





lemma fs_with_document_sel:
  "files fs_with_document = (files fs_project)(''/p/CLAUDE.md'' \<mapsto>
                    \<lparr>content = NotJson ''stale'', mtime = 5\<rparr>)"
  "denied fs_with_document = (\<lambda>op p. False)"
  "now fs_with_document = 6"
  "homedir fs_with_document = ''/home/u''"
  by (simp_all add: fs_with_document_def fs_project_def)

lemma getGlobalConfigPath_example:
  "homedir s = ''/home/u'' \<Longrightarrow> getGlobalConfigPath s = ''/home/u/.vibe/config.json''"
  by (simp add: getGlobalConfigPath_def getGlobalConfigDir_def join_def VIBE_DIR_def CONFIG_FILE_def)

lemma example_init:
  "files s ''/p/.vibe/config.json'' = files fs_project ''/p/.vibe/config.json'' \<Longrightarrow>
   \<not> denied s Access ''/p/.vibe/config.json'' \<Longrightarrow> isProjectInitialized s ''/p''"
  by (simp add: isProjectInitialized_def fileExists_def paths_example fs_project_sel)

lemma example_read:
  "files s ''/p/.vibe/config.json'' = files fs_project ''/p/.vibe/config.json'' \<Longrightarrow>
   \<not> denied s Access ''/p/.vibe/config.json'' \<Longrightarrow> \<not> denied s Read ''/p/.vibe/config.json'' \<Longrightarrow>
   readProjectConfig s ''/p'' = Success (Some example_project)"
  by (simp add: readProjectConfig_def readJsonFile_def fileExists_def paths_example fs_project_sel
        ProjectConfigSchema_parse_def getProp_def example_project_def)

lemma example_global:
  "homedir s = ''/home/u'' \<Longrightarrow> files s ''/home/u/.vibe/config.json'' = None \<Longrightarrow>
   readGlobalConfig s = Success default_global"
  by (simp add: readGlobalConfig_def fileExists_def getGlobalConfigPath_example DEFAULT_CONFIG_def
        default_global_def)

lemma example_load:
  "readGlobalConfig s = Success default_global \<Longrightarrow>
   readProjectConfig s ''/p'' = Success (Some c) \<Longrightarrow>
   loadConfig s ''/p'' = Success (mergeConfigs default_global (Some c))"
  by (simp add: loadConfig_def)

lemma fs_blank_not_init: "\<not> isProjectInitialized fs_blank ''/p''"
  by (simp add: isProjectInitialized_def fileExists_def fs_blank_sel)

lemma fs_with_document_init: "isProjectInitialized fs_with_document ''/p''"
  by (rule example_init) (simp_all add: fs_with_document_sel)

lemma fs_with_document_load:
  "loadConfig fs_with_document ''/p'' = Success (mergeConfigs default_global (Some example_project))"
  by (rule example_load, rule example_global)
     (simp_all add: fs_with_document_sel fs_project_sel example_read)

lemma fs_document_locked_init: "isProjectInitialized fs_document_locked ''/p''"
  by (rule example_init) (simp_all add: fs_document_locked_sel)

lemma fs_document_locked_read:
  "readProjectConfig fs_document_locked ''/p'' = Success (Some example_project)"
  by (rule example_read) (simp_all add: fs_document_locked_sel)

lemma fs_document_locked_load:
  "loadConfig fs_document_locked ''/p'' = Success (mergeConfigs default_global (Some example_project))"
  by (rule example_load, rule example_global)
     (simp_all add: fs_document_locked_sel fs_project_sel fs_document_locked_read)

lemma fs_document_locked_write:
  "writeProjectConfig fs_document_locked ''/p''
     (ProjectConfig_toJs ((nullish (Some example_project) emptyProjectConfig)\<lparr>ProjectConfig.mode := Some Guided\<rparr>))
   = (Returns (Success ()),
      writeFile fs_document_locked ''/p/.vibe/config.json'' (JsonDoc (ProjectConfig_toJs example_updated)))"
  by (simp add: writeProjectConfig_toJs paths_example fs_document_locked_sel example_updated_def)

lemma fs_document_locked_reload:
  "loadConfig (writeFile fs_document_locked ''/p/.vibe/config.json''
       (JsonDoc (ProjectConfig_toJs example_updated))) ''/p''
     = Success (mergeConfigs default_global (Some example_updated))"
proof (rule example_load)
  show "readGlobalConfig (writeFile fs_document_locked ''/p/.vibe/config.json''
       (JsonDoc (ProjectConfig_toJs example_updated))) = Success default_global"
    by (rule example_global) (simp_all add: fs_document_locked_sel fs_project_sel)
  show "readProjectConfig (writeFile fs_document_locked ''/p/.vibe/config.json''
       (JsonDoc (ProjectConfig_toJs example_updated))) ''/p'' = Success (Some example_updated)"
    using readProjectConfig_after_write [of fs_document_locked "''/p''" example_updated]
    by (simp add: paths_example fs_document_locked_sel)
qed

lemma fs_document_locked_build:
  "buildClaudeMd (writeFile fs_document_locked ''/p/.vibe/config.json''
       (JsonDoc (ProjectConfig_toJs example_updated)))
     (mergeConfigs default_global (Some example_updated)) ''/p''
   = (Failure IOError, writeFile fs_document_locked ''/p/.vibe/config.json''
       (JsonDoc (ProjectConfig_toJs example_updated)))"
  by (simp add: buildClaudeMd_eq paths_example fs_document_locked_sel)






lemma digits_examples:
  "digits ''12.3'' = Some (''12'', ''.3'')" "digits ''x'' = None" "digits [] = None"
  by (simp_all add: digits_def isDigit_def)

lemma decimal_examples: "decimal ''10'' = 10" "decimal ''2'' = 2" "decimal ''0'' = 0"
  by (simp_all add: decimal_def digit_val_def)

lemma parseVersion_examples:
  "parseVersion decimal ''v1.2.3'' = Some \<lparr>major = 1, minor = 2, patch = 3\<rparr>"
  "parseVersion decimal ''1.10.0-beta'' = Some \<lparr>major = 1, minor = 10, patch = 0\<rparr>"
  "parseVersion decimal ''1.2'' = None"
  "parseVersion decimal ''latest'' = None"
  "parseVersion decimal ''V1.2.3'' = None"
  by (simp_all add: parseVersion_def version_match_def optional_v_def digits_def dot_def
        isDigit_def decimal_def digit_val_def)

section \<open>Properties of the merge\<close>

text \<open>
  C1. For every global config and every project config or \<open>null\<close>, each field of
  \<open>mergeConfigs\<close> is resolved by precedence: the mode is the project's when
  defined, else the global default mode; checklist and standards are the project's
  value when defined, else the global value, else the defaults \<open>pre\<close> and
  \<open>[typescript]\<close>; editor and Claude Code path come from the global config only;
  project name and template from the project only; custom prompts are the project's
  when defined, else empty. The four fields that \<open>MergedConfig\<close> declares
  required hold a value, not an optional one: each is equal to a term of the
  plain (non-option) type.
\<close>

theorem mergeConfigs_precedence:
  "MergedConfig.mode (mergeConfigs global project) =
     (case project of
        None \<Rightarrow> defaultMode global
      | Some p \<Rightarrow> (case ProjectConfig.mode p of None \<Rightarrow> defaultMode global | Some m \<Rightarrow> m))
   \<and> MergedConfig.includeSecurityChecklist (mergeConfigs global project) =
     (case (case project of None \<Rightarrow> None | Some p \<Rightarrow> ProjectConfig.includeSecurityChecklist p) of
        Some c \<Rightarrow> c
      | None \<Rightarrow> (case GlobalConfig.includeSecurityChecklist global of Some c \<Rightarrow> c | None \<Rightarrow> CPre))
   \<and> MergedConfig.includeStandards (mergeConfigs global project) =
     (case (case project of None \<Rightarrow> None | Some p \<Rightarrow> ProjectConfig.includeStandards p) of
        Some s \<Rightarrow> s
      | None \<Rightarrow> (case GlobalConfig.includeStandards global of Some s \<Rightarrow> s | None \<Rightarrow> [STypescript]))
   \<and> MergedConfig.editor (mergeConfigs global project) = GlobalConfig.editor global
   \<and> MergedConfig.claudeCodePath (mergeConfigs global project) = GlobalConfig.claudeCodePath global
   \<and> MergedConfig.projectName (mergeConfigs global project) =
     (case project of None \<Rightarrow> None | Some p \<Rightarrow> ProjectConfig.projectName p)
   \<and> MergedConfig.template (mergeConfigs global project) =
     (case project of None \<Rightarrow> None | Some p \<Rightarrow> ProjectConfig.template p)
   \<and> MergedConfig.customPrompts (mergeConfigs global project) =
     (case (case project of None \<Rightarrow> None | Some p \<Rightarrow> ProjectConfig.customPrompts p) of
        Some cp \<Rightarrow> cp
      | None \<Rightarrow> [])"
  by (cases project)
     (simp_all add: mergeConfigs_def DEFAULT_CONFIG_def split: option.split)

theorem mergeConfigs_precedence_witness:
  "mergeConfigs default_global (Some example_project) =
     \<lparr>MergedConfig.mode = Learning, editor = None, claudeCodePath = None,
      projectName = Some ''foo'', template = None, customPrompts = [''x''],
      includeSecurityChecklist = CPre, includeStandards = [STypescript]\<rparr>
   \<and> MergedConfig.mode (mergeConfigs default_global None) = Guided
   \<and> MergedConfig.customPrompts (mergeConfigs default_global None) = []"
  using mergeConfigs_precedence [of default_global "Some example_project"]
    mergeConfigs_precedence [of default_global None]
  by (simp add: default_global_def example_project_def mergeConfigs_def DEFAULT_CONFIG_def)

section \<open>Properties of the mode switch\<close>



text \<open>
  C3. For every project root where the project is not initialized (the project
  config file is absent, or cannot be accessed) and every mode, \<open>switchMode\<close>
  returns the not-initialized failure and leaves the file system as it was: no
  file is written, the project config file is still absent afterwards and no
  derived document is generated.
\<close>

theorem switchMode_not_initialized:
  assumes "\<not> isProjectInitialized s root"
  shows "switchMode s root m = (Returns (Failure NotInitialized), s)"
  using assms by (simp add: switchMode_def)

theorem switchMode_not_initialized_witness:
  "files fs_blank (getProjectConfigPath ''/p'') = None
   \<and> \<not> isProjectInitialized fs_blank ''/p''
   \<and> switchMode fs_blank ''/p'' Expert = (Returns (Failure NotInitialized), fs_blank)
   \<and> files (snd (switchMode fs_blank ''/p'' Expert)) (getProjectConfigPath ''/p'') = None
   \<and> files (snd (switchMode fs_blank ''/p'' Expert)) (getClaudeMdPath ''/p'') = None"
  using switchMode_not_initialized [OF fs_blank_not_init, of Expert] fs_blank_not_init
  by (simp add: fs_blank_sel)

text \<open>
  After a successful write the merged config always reloads, so the regeneration
  is always reached.
\<close>

lemma switchMode_reload_succeeds:
  assumes init: "isProjectInitialized s root"
      and load: "loadConfig s root = Success config"
      and rd: "readProjectConfig s root = Success existing"
      and wr: "writeProjectConfig s root
                 (ProjectConfig_toJs ((nullish existing emptyProjectConfig)\<lparr>ProjectConfig.mode := Some m\<rparr>))
               = (Returns (Success ()), s1)"
  shows "\<exists>newConfig. loadConfig s1 root = Success newConfig"
proof -
  obtain g p where g: "readGlobalConfig s = Success g"
    using loadConfig_Success_parts [OF load] by blast
  obtain cfg where cfg: "existing = Some cfg"
    using readProjectConfig_initialized [OF init rd] by blast
  have acc: "\<not> denied s Access (getProjectConfigPath root)"
    using init by (simp add: isProjectInitialized_def fileExists_def)
  have rdb: "\<not> denied s Read (getProjectConfigPath root)"
    using readProjectConfig_Some_readable rd cfg by blast
  have "s1 = writeFile s (getProjectConfigPath root)
      (JsonDoc (ProjectConfig_toJs ((nullish existing emptyProjectConfig)\<lparr>ProjectConfig.mode := Some m\<rparr>)))"
    using wr by (simp add: writeProjectConfig_toJs split: if_splits)
  then show ?thesis
    using loadConfig_after_write [OF g acc rdb] by blast
qed

text \<open>
  C4. For every initialized project root: if the write of the updated project
  config succeeds, but the regeneration of the derived document that follows it
  fails, then \<open>switchMode\<close> returns that failure, and the new mode stays
  persisted: the project config file reads back with the new mode, and so does the
  merged config. Nothing is rolled back.
\<close>

theorem switchMode_build_failure_keeps_mode:
  assumes init: "isProjectInitialized s root"
      and load: "loadConfig s root = Success config"
      and rd: "readProjectConfig s root = Success existing"
      and wr: "writeProjectConfig s root
                 (ProjectConfig_toJs ((nullish existing emptyProjectConfig)\<lparr>ProjectConfig.mode := Some m\<rparr>))
               = (Returns (Success ()), s1)"
      and reload: "loadConfig s1 root = Success newConfig"
      and build: "buildClaudeMd s1 newConfig root = (Failure e, s2)"
  shows "switchMode s root m = (Returns (Failure e), s2)
         \<and> readProjectConfig s2 root =
             Success (Some ((nullish existing emptyProjectConfig)\<lparr>ProjectConfig.mode := Some m\<rparr>))
         \<and> (\<exists>c. loadConfig s2 root = Success c \<and> MergedConfig.mode c = m)"
proof -
  let ?upd = "(nullish existing emptyProjectConfig)\<lparr>ProjectConfig.mode := Some m\<rparr>"
  have sw: "switchMode s root m = (Returns (Failure e), s2)"
    using init load rd wr reload build by (simp add: switchMode_def Let_def)
  have s2: "s2 = s1"
    using build by (simp add: buildClaudeMd_eq split: if_splits)
  obtain cfg where cfg: "existing = Some cfg"
    using readProjectConfig_initialized [OF init rd] by blast
  have acc: "\<not> denied s Access (getProjectConfigPath root)"
    using init by (simp add: isProjectInitialized_def fileExists_def)
  have rdb: "\<not> denied s Read (getProjectConfigPath root)"
    using readProjectConfig_Some_readable rd cfg by blast
  have s1: "s1 = writeFile s (getProjectConfigPath root) (JsonDoc (ProjectConfig_toJs ?upd))"
    using wr by (simp add: writeProjectConfig_toJs split: if_splits)
  have stored: "readProjectConfig s2 root = Success (Some ?upd)"
    using readProjectConfig_after_write [OF acc rdb, of ?upd] by (simp add: s2 s1)
  obtain g p where "newConfig = mergeConfigs g p" and "readProjectConfig s1 root = Success p"
    using loadConfig_Success_parts [OF reload] by blast
  with stored have "MergedConfig.mode newConfig = m"
    by (simp add: s2 cfg mergeConfigs_def)
  with reload sw stored show ?thesis
    by (simp add: s2)
qed

theorem switchMode_build_failure_keeps_mode_witness:
  "isProjectInitialized fs_document_locked ''/p''
   \<and> fst (switchMode fs_document_locked ''/p'' Guided) = Returns (Failure IOError)
   \<and> readProjectConfig (snd (switchMode fs_document_locked ''/p'' Guided)) ''/p'' =
       Success (Some \<lparr>ProjectConfig.mode = Some Guided, projectName = Some ''foo'', template = None,
         customPrompts = Some [''x''], includeSecurityChecklist = None, includeStandards = None\<rparr>)
   \<and> files (snd (switchMode fs_document_locked ''/p'' Guided)) (getClaudeMdPath ''/p'') = None"
  using switchMode_build_failure_keeps_mode
    [OF fs_document_locked_init fs_document_locked_load fs_document_locked_read
        fs_document_locked_write fs_document_locked_reload fs_document_locked_build]
    fs_document_locked_init
  by (simp add: example_updated_def example_project_def paths_example fs_document_locked_sel
        fs_project_sel)

text \<open>
  C6. For every initialized project root whose current merged mode already equals
  the new mode, and whose file system accepts the two writes, \<open>switchMode\<close>
  still succeeds, returns a previous mode equal to the new mode, and still
  regenerates the derived document: after the call the document is the one
  generated from the reloaded merged config, stamped with the time of that write,
  whatever was there before.
\<close>

theorem switchMode_same_mode_regenerates:
  assumes init: "isProjectInitialized s root"
      and load: "loadConfig s root = Success config"
      and same: "MergedConfig.mode config = m"
      and wr_ok: "\<not> denied s Write (getProjectConfigPath root)"
      and doc_ok: "\<not> denied s Write (getClaudeMdPath root)"
  shows "\<exists>newConfig.
           fst (switchMode s root m) =
             Returns (Success \<lparr>previousMode = m, newMode = m, claudeMdPath = getClaudeMdPath root\<rparr>)
         \<and> files (snd (switchMode s root m)) (getClaudeMdPath root) =
             Some \<lparr>content = Markdown newConfig, mtime = Suc (now s)\<rparr>
         \<and> loadConfig (snd (switchMode s root m)) root = Success newConfig
         \<and> MergedConfig.mode newConfig = m"
proof -
  obtain g p where rd: "readProjectConfig s root = Success p"
    using loadConfig_Success_parts [OF load] by blast
  obtain cfg where cfg: "p = Some cfg"
    using readProjectConfig_initialized [OF init rd] by blast
  let ?upd = "cfg\<lparr>ProjectConfig.mode := Some m\<rparr>"
  let ?s1 = "writeFile s (getProjectConfigPath root) (JsonDoc (ProjectConfig_toJs ?upd))"
  obtain g' where reload: "loadConfig ?s1 root = Success (mergeConfigs g' (Some ?upd))"
    and sw: "switchMode s root m =
     (let p = getProjectConfigPath root;
          updated = cfg\<lparr>ProjectConfig.mode := Some m\<rparr>;
          s1 = writeFile s p (JsonDoc (ProjectConfig_toJs updated));
          newConfig = mergeConfigs g' (Some updated)
      in if denied s Write p then (Returns (Failure IOError), s)
         else if denied s Write (getClaudeMdPath root) then (Returns (Failure IOError), s1)
         else (Returns (Success \<lparr>previousMode = MergedConfig.mode config, newMode = m,
                                  claudeMdPath = getClaudeMdPath root\<rparr>),
               writeFile s1 (getClaudeMdPath root) (Markdown newConfig)))"
    using switchMode_after_reads [OF init load rd [unfolded cfg]] by blast
  show ?thesis
    using same wr_ok doc_ok reload
    by (intro exI [of _ "mergeConfigs g' (Some ?upd)"])
       (simp add: sw Let_def mergeConfigs_mode_Some)
qed

theorem switchMode_same_mode_regenerates_witness:
  "isProjectInitialized fs_with_document ''/p''
   \<and> (\<exists>config. loadConfig fs_with_document ''/p'' = Success config \<and> MergedConfig.mode config = Learning)
   \<and> files fs_with_document (getClaudeMdPath ''/p'') = Some \<lparr>content = NotJson ''stale'', mtime = 5\<rparr>
   \<and> (\<exists>newConfig.
        fst (switchMode fs_with_document ''/p'' Learning) =
          Returns (Success \<lparr>previousMode = Learning, newMode = Learning, claudeMdPath = ''/p/CLAUDE.md''\<rparr>)
      \<and> files (snd (switchMode fs_with_document ''/p'' Learning)) (getClaudeMdPath ''/p'') =
          Some \<lparr>content = Markdown newConfig, mtime = 7\<rparr>
      \<and> MergedConfig.mode newConfig = Learning)"
proof -
  have same: "MergedConfig.mode (mergeConfigs default_global (Some example_project)) = Learning"
    by (simp add: mergeConfigs_def example_project_def)
  have wr_ok: "\<not> denied fs_with_document Write (getProjectConfigPath ''/p'')"
    and doc_ok: "\<not> denied fs_with_document Write (getClaudeMdPath ''/p'')"
    by (simp_all add: fs_with_document_sel)
  show ?thesis
    using switchMode_same_mode_regenerates
      [OF fs_with_document_init fs_with_document_load same wr_ok doc_ok]
      fs_with_document_init fs_with_document_load same
    by (auto simp add: paths_example fs_with_document_sel)
qed



text \<open>
  The step is the one \<open>switchMode\<close> runs between loading the merged config and
  reloading it.
\<close>

lemma switchMode_via_update:
  assumes "isProjectInitialized s root" and "loadConfig s root = Success config"
  shows "switchMode s root m =
     (case switchMode_update s root m of
        (Throws e, s1) \<Rightarrow> (Throws e, s1)
      | (Returns (Failure e), s1) \<Rightarrow> (Returns (Failure e), s1)
      | (Returns (Success u), s1) \<Rightarrow>
          (case loadConfig s1 root of
             Failure e \<Rightarrow> (Returns (Failure e), s1)
           | Success newConfig \<Rightarrow>
               (case buildClaudeMd s1 newConfig root of
                  (Failure e, s2) \<Rightarrow> (Returns (Failure e), s2)
                | (Success path, s2) \<Rightarrow>
                    (Returns (Success \<lparr>previousMode = MergedConfig.mode config, newMode = m,
                                        claudeMdPath = path\<rparr>), s2))))"
  using assms
  by (simp add: switchMode_def switchMode_update_def Let_def writeProjectConfig_toJs
        split: Result.split)

lemma switchMode_never_throws: "fst (switchMode s root m) \<noteq> Throws e"
proof (cases "isProjectInitialized s root")
  case False
  then show ?thesis by (simp add: switchMode_def)
next
  case init: True
  show ?thesis
  proof (cases "loadConfig s root")
    case (Failure e')
    with init show ?thesis by (simp add: switchMode_def)
  next
    case (Success config)
    obtain g p where rd: "readProjectConfig s root = Success p"
      using loadConfig_Success_parts [OF Success] by blast
    obtain cfg where cfg: "p = Some cfg"
      using readProjectConfig_initialized [OF init rd] by blast
    show ?thesis
      using switchMode_after_reads [OF init Success rd [unfolded cfg], of m]
      by (auto simp add: Let_def split: if_splits)
  qed
qed

section \<open>Properties of the staleness check\<close>



section \<open>Properties of the config writers\<close>

text \<open>
  C5. The claim is that a schema-invalid config handed to \<open>writeGlobalConfig\<close>
  or \<open>writeProjectConfig\<close> comes back as a failure result. The writers do
  validate before they serialise, and they write no file, but the rejection is
  thrown: on \<open>{"mode": "turbo"}\<close>, on a \<open>customPrompts\<close> array with a hole
  (a value of the static type \<open>string[]\<close>) and on \<open>{"defaultMode": "turbo"}\<close> the
  promise rejects with the \<open>ZodError\<close> and the file system is unchanged.
\<close>

theorem writers_throw_on_schema_violation:
  "writeProjectConfig s root (JObj [(''mode'', JStr ''turbo'')]) = (Throws ZodError, s)
   \<and> writeProjectConfig s root (JObj [(''customPrompts'', JArr [JUndefined])]) = (Throws ZodError, s)
   \<and> writeGlobalConfig s (JObj [(''defaultMode'', JStr ''turbo'')]) = (Throws ZodError, s)"
  by (simp add: writeProjectConfig_def writeGlobalConfig_def ProjectConfigSchema_parse_def
        GlobalConfigSchema_parse_def getProp_def)

text \<open>The same for every value that violates the schema.\<close>

lemma writers_reject_before_writing:
  "(ProjectConfigSchema_parse v = Inl e \<longrightarrow> writeProjectConfig s root v = (Throws e, s))
   \<and> (GlobalConfigSchema_parse v = Inl e \<longrightarrow> writeGlobalConfig s v = (Throws e, s))"
  by (simp add: writeProjectConfig_def writeGlobalConfig_def)

section \<open>Properties of the exit codes\<close>




section \<open>Properties of the version comparison\<close>

text \<open>
  What the matcher accepts, stated without the matcher: an optional \<open>v\<close>, three
  non-empty runs of digits separated by dots, and a remainder that does not go on
  with a digit (the third run is greedy). This is the language of the regular
  expression, with its capture groups.
\<close>

lemma digits_iff:
  "digits s = Some (d, r) \<longleftrightarrow>
     d \<noteq> [] \<and> s = d @ r \<and> (\<forall>c\<in>set d. isDigit c) \<and> (r = [] \<or> \<not> isDigit (hd r))"
proof
  assume "digits s = Some (d, r)"
  then have d: "d = takeWhile isDigit s" and r: "r = dropWhile isDigit s" and ne: "d \<noteq> []"
    by (auto simp add: digits_def Let_def split: if_splits)
  have "s = d @ r" by (simp add: d r)
  moreover have "\<forall>c\<in>set d. isDigit c" using d by (auto dest: set_takeWhileD)
  moreover have "r = [] \<or> \<not> isDigit (hd r)" using r hd_dropWhile [of isDigit s] by auto
  ultimately show "d \<noteq> [] \<and> s = d @ r \<and> (\<forall>c\<in>set d. isDigit c) \<and> (r = [] \<or> \<not> isDigit (hd r))"
    using ne by simp
next
  assume a: "d \<noteq> [] \<and> s = d @ r \<and> (\<forall>c\<in>set d. isDigit c) \<and> (r = [] \<or> \<not> isDigit (hd r))"
  then have tr: "takeWhile isDigit r = []" and dr: "dropWhile isDigit r = r"
    by (cases r; auto)+
  from a have "takeWhile isDigit s = d" "dropWhile isDigit s = r"
    by (simp_all add: takeWhile_append2 dropWhile_append2 tr dr)
  with a show "digits s = Some (d, r)"
    by (simp add: digits_def Let_def)
qed

lemma dot_iff: "dot s = Some r \<longleftrightarrow> s = CHR ''.'' # r"
  by (auto simp add: dot_def split: list.splits if_splits)

lemma optional_v_cases:
  "optional_v s = t \<longleftrightarrow> (s = CHR ''v'' # t \<or> (s = t \<and> (t = [] \<or> hd t \<noteq> CHR ''v'')))"
  by (cases s) (auto simp add: optional_v_def)

lemma not_digit_v: "\<not> isDigit CHR ''v''" and not_digit_dot: "\<not> isDigit CHR ''.''"
  by (simp_all add: isDigit_def)

lemma version_match_iff:
  "version_match s = Some (a, b, c) \<longleftrightarrow>
     (\<exists>pre rest. s = pre @ a @ ''.'' @ b @ ''.'' @ c @ rest
        \<and> (pre = [] \<or> pre = ''v'')
        \<and> a \<noteq> [] \<and> b \<noteq> [] \<and> c \<noteq> []
        \<and> (\<forall>ch\<in>set (a @ b @ c). isDigit ch)
        \<and> (rest = [] \<or> \<not> isDigit (hd rest)))"
proof
  assume "version_match s = Some (a, b, c)"
  then obtain r1 r2 r3 r4 r5 where
    d1: "digits (optional_v s) = Some (a, r1)" and p1: "dot r1 = Some r2" and
    d2: "digits r2 = Some (b, r3)" and p2: "dot r3 = Some r4" and
    d3: "digits r4 = Some (c, r5)"
    by (auto simp add: version_match_def split: option.splits prod.splits)
  have body: "optional_v s = a @ ''.'' @ b @ ''.'' @ c @ r5"
    using d1 p1 d2 p2 d3 by (simp add: digits_iff dot_iff)
  have "s = [] @ a @ ''.'' @ b @ ''.'' @ c @ r5 \<or> s = ''v'' @ a @ ''.'' @ b @ ''.'' @ c @ r5"
    using body optional_v_cases [of s "optional_v s"] by auto
  moreover have "a \<noteq> [] \<and> b \<noteq> [] \<and> c \<noteq> [] \<and> (\<forall>ch\<in>set (a @ b @ c). isDigit ch)
      \<and> (r5 = [] \<or> \<not> isDigit (hd r5))"
    using d1 d2 d3 by (auto simp add: digits_iff)
  ultimately show "\<exists>pre rest. s = pre @ a @ ''.'' @ b @ ''.'' @ c @ rest
        \<and> (pre = [] \<or> pre = ''v'')
        \<and> a \<noteq> [] \<and> b \<noteq> [] \<and> c \<noteq> []
        \<and> (\<forall>ch\<in>set (a @ b @ c). isDigit ch)
        \<and> (rest = [] \<or> \<not> isDigit (hd rest))"
    by blast
next
  assume "\<exists>pre rest. s = pre @ a @ ''.'' @ b @ ''.'' @ c @ rest
        \<and> (pre = [] \<or> pre = ''v'')
        \<and> a \<noteq> [] \<and> b \<noteq> [] \<and> c \<noteq> []
        \<and> (\<forall>ch\<in>set (a @ b @ c). isDigit ch)
        \<and> (rest = [] \<or> \<not> isDigit (hd rest))"
  then obtain pre rest where s: "s = pre @ a @ ''.'' @ b @ ''.'' @ c @ rest"
    and pre: "pre = [] \<or> pre = ''v''"
    and ne: "a \<noteq> []" "b \<noteq> []" "c \<noteq> []"
    and dg: "\<forall>ch\<in>set a. isDigit ch" "\<forall>ch\<in>set b. isDigit ch" "\<forall>ch\<in>set c. isDigit ch"
    and rest: "rest = [] \<or> \<not> isDigit (hd rest)"
    by auto
  have "isDigit (hd a)" using ne(1) dg(1) by (cases a) auto
  then have "hd a \<noteq> CHR ''v''" using not_digit_v by auto
  then have ov: "optional_v s = a @ ''.'' @ b @ ''.'' @ c @ rest"
    using pre s ne(1) by (auto simp add: optional_v_cases)
  have d1: "digits (optional_v s) = Some (a, ''.'' @ b @ ''.'' @ c @ rest)"
    using ne(1) dg(1) by (simp add: digits_iff ov not_digit_dot)
  have d2: "digits (b @ ''.'' @ c @ rest) = Some (b, ''.'' @ c @ rest)"
    using ne(2) dg(2) by (simp add: digits_iff not_digit_dot)
  have d3: "digits (c @ rest) = Some (c, rest)"
    using ne(3) dg(3) rest by (simp add: digits_iff)
  show "version_match s = Some (a, b, c)"
    using d1 d2 d3 by (simp add: version_match_def dot_def)
qed

lemma parseVersion_None_iff:
  "parseVersion parseInt s = None \<longleftrightarrow> version_match s = None"
  by (auto simp add: parseVersion_def version_match_iff split: option.splits)

text \<open>
  C10. For every pair of strings of which at least one does not parse as a version
  (\<open>parseVersion\<close> returns \<open>null\<close>: the string does not start with an optional
  \<open>v\<close> and three dot-separated runs of digits), \<open>compareVersions\<close> returns 0;
  when both parse, it returns -1, 0 or 1 as the triple (major, minor, patch) of the
  first is below, equal to or above that of the second in the lexicographic order.
\<close>

theorem compareVersions_spec:
  "(parseVersion parseInt a = None \<or> parseVersion parseInt b = None
      \<longrightarrow> compareVersions parseInt a b = 0)
   \<and> (\<forall>x y. parseVersion parseInt a = Some x \<and> parseVersion parseInt b = Some y \<longrightarrow>
         compareVersions parseInt a b =
           (if (major x, minor x, patch x) < (major y, minor y, patch y) then - 1
            else if (major x, minor x, patch x) = (major y, minor y, patch y) then 0
            else 1))"
  by (auto simp add: compareVersions_def less_prod_def split: option.splits)

theorem compareVersions_spec_witness:
  "parseVersion decimal ''latest'' = None
   \<and> compareVersions decimal ''latest'' ''v1.2.3'' = 0
   \<and> compareVersions decimal ''v1.2.3'' ''1.2'' = 0
   \<and> compareVersions decimal ''v1.2.3'' ''1.10.0-beta'' = - 1
   \<and> compareVersions decimal ''1.10.0-beta'' ''v1.2.3'' = 1
   \<and> compareVersions decimal ''v1.2.3'' ''1.2.3'' = 0"
proof -
  have p: "parseVersion decimal ''1.2.3'' = Some \<lparr>major = 1, minor = 2, patch = 3\<rparr>"
    by (simp add: parseVersion_def version_match_def optional_v_def digits_def dot_def
        isDigit_def decimal_def digit_val_def)
  note t1 = compareVersions_spec [of decimal "''latest''" "''v1.2.3''", THEN conjunct1]
  note t2 = compareVersions_spec [of decimal "''v1.2.3''" "''1.2''", THEN conjunct1]
  note t3 = compareVersions_spec [of decimal "''v1.2.3''" "''1.10.0-beta''", THEN conjunct2]
  note t4 = compareVersions_spec [of decimal "''1.10.0-beta''" "''v1.2.3''", THEN conjunct2]
  note t5 = compareVersions_spec [of decimal "''v1.2.3''" "''1.2.3''", THEN conjunct2]
  have r1: "compareVersions decimal ''latest'' ''v1.2.3'' = 0"
    using t1 by (simp add: parseVersion_examples)
  have r2: "compareVersions decimal ''v1.2.3'' ''1.2'' = 0"
    using t2 by (simp add: parseVersion_examples)
  have r3: "compareVersions decimal ''v1.2.3'' ''1.10.0-beta'' = - 1"
    using t3 by (simp add: parseVersion_examples less_prod_def)
  have r4: "compareVersions decimal ''1.10.0-beta'' ''v1.2.3'' = 1"
    using t4 by (simp add: parseVersion_examples less_prod_def)
  have r5: "compareVersions decimal ''v1.2.3'' ''1.2.3'' = 0"
    using t5 by (simp add: parseVersion_examples p less_prod_def)
  from r1 r2 r3 r4 r5 parseVersion_examples(4) show ?thesis by blast
qed

end
